theory Spec2Isabelle
  imports Complex_Main
begin

section \<open>Data model\<close>

text \<open>
  The \<open>EventStatus\<close> enum and the \<open>Event\<close> row of \<open>schema.prisma\<close> (table \<open>events\<close> of
  the init migration). Instants (\<open>sendAt\<close>, \<open>createdAt\<close>, \<open>updatedAt\<close>) are milliseconds since
  the epoch, the value of \<open>Date.getTime()\<close>; \<open>retryCount\<close> is the column's integer.
  The field \<open>id\<close> is written \<open>id_ev\<close>, since \<open>id\<close> is the identity function of HOL.
\<close>

datatype EventStatus = SCHEDULED | SENT | FAILED | RETRIED | PROCESSING

record Event =
  id_ev :: string
  message :: string
  recipientEmail :: string
  sendAt :: int
  status :: EventStatus
  retryCount :: int
  createdAt :: int
  updatedAt :: int

text \<open>
  \<open>CreateEventData\<close> as the controller builds it (\<open>message\<close>, \<open>recipientEmail\<close>, \<open>sendAt\<close>)
  and \<open>UpdateEventData\<close> as \<open>updateEventStatus\<close> builds it (\<open>status\<close>, and \<open>retryCount\<close>
  only when the caller passed one).
\<close>

record CreateEventData =
  data_message :: string
  data_recipientEmail :: string
  data_sendAt :: int

record UpdateEventData =
  upd_status :: EventStatus
  upd_retryCount :: "int option"

text \<open>
  A job of the \<open>eventQueue\<close>: its name, the \<open>SendEventJobData\<close> payload, the options
  \<open>scheduleEvent\<close> passes to \<open>eventQueue.add\<close>, and the queue's own attempt counter
  \<open>attemptsMade\<close> (which the worker only prints).
\<close>

record SendEventJobData =
  eventId :: string
  job_recipientEmail :: string
  job_message :: string

record Job =
  job_name :: string
  job_data :: SendEventJobData
  delay :: int
  attempts :: nat
  removeOnComplete :: bool
  removeOnFail :: bool
  jobId :: string
  attemptsMade :: nat

text \<open>
  The object handed to \<open>broadcastEventUpdate\<close>. \<open>toISOString\<close> renders an instant as
  text; the model keeps the instant itself.
\<close>

record EventUpdate =
  upd_id :: string
  upd_message :: string
  upd_recipientEmail :: string
  upd_sendAt :: int
  upd_event_status :: EventStatus
  upd_event_retryCount :: int
  upd_createdAt :: int
  upd_updatedAt :: int

datatype error = Error string

text \<open>
  Everything the service and the worker do to the outside, in the order they do it: the
  database calls of \<open>EventModel\<close>, \<open>eventQueue.add\<close>, the simulated send, the broadcast,
  and the one console line that shows the computed retry delay.
\<close>

datatype Effect =
    DbCreate Event
  | DbGet string
  | DbUpdate Event
  | QueueAdd Job
  | Send string string
  | Broadcast EventUpdate
  | RetryWarning string int rat

text \<open>
  The world the code runs in: the \<open>events\<close> table, the effects so far, and what the
  outside will answer next: the database clock, \<open>Date.now()\<close>, the \<open>uuid()\<close> the next
  insert draws, whether the coming infrastructure calls (database, queue) fail, and the
  outcomes of the coming simulated sends. An exhausted script means no fault, and a
  successful send.
\<close>

record World =
  events :: "string \<rightharpoonup> Event"
  trace :: "Effect list"
  dbNow :: int
  dateNow :: int
  uuid :: string
  faults :: "bool list"
  sends :: "bool list"

definition infra :: "World \<Rightarrow> bool \<times> World" where
  "infra w = (case faults w of [] \<Rightarrow> (False, w) | f # fs \<Rightarrow> (f, w\<lparr>faults := fs\<rparr>))"

definition emit :: "Effect \<Rightarrow> World \<Rightarrow> World" where
  "emit e w = w\<lparr>trace := trace w @ [e]\<rparr>"

fun enqueued :: "Effect list \<Rightarrow> Job list" where
  "enqueued [] = []"
| "enqueued (QueueAdd j # es) = j # enqueued es"
| "enqueued (e # es) = enqueued es"

fun published :: "Effect list \<Rightarrow> EventUpdate list" where
  "published [] = []"
| "published (Broadcast m # es) = m # published es"
| "published (e # es) = published es"

section \<open>The record store: \<open>EventModel\<close>\<close>

text \<open>
  Modelled from the spec: \<open>models/event.model.ts\<close> (\<open>EventModel.createEvent\<close>,
  \<open>getEventById\<close>, \<open>updateEvent\<close>) is not among the sources. The spec gives the store as
  \<open>create(item) \<rightarrow> item\<close>, \<open>get(id) \<rightarrow> item|absent\<close>, \<open>update(id, partialFields) \<rightarrow> item\<close>,
  atomic per item, each of which can fail with the store. The columns' defaults are those of
  \<open>schema.prisma\<close>: a fresh \<open>uuid()\<close> as primary key, \<open>status\<close> SCHEDULED, \<open>retryCount\<close> 0,
  \<open>createdAt\<close> now, \<open>updatedAt\<close> set on every write. An insert under a key that exists and
  an update of a row that does not exist fail.
\<close>

definition createEvent :: "CreateEventData \<Rightarrow> World \<Rightarrow> (error + Event) \<times> World" where
  "createEvent d w =
     (case infra w of (failed, w1) \<Rightarrow>
        if failed then (Inl (Error ''database unavailable''), w1)
        else if events w1 (uuid w1) \<noteq> None then (Inl (Error ''unique constraint failed''), w1)
        else
          let newEvent = \<lparr>id_ev = uuid w1,
                           message = data_message d,
                           recipientEmail = data_recipientEmail d,
                           sendAt = data_sendAt d,
                           status = SCHEDULED,
                           retryCount = 0,
                           createdAt = dbNow w1,
                           updatedAt = dbNow w1\<rparr>
          in (Inr newEvent, emit (DbCreate newEvent) (w1\<lparr>events := (events w1)(uuid w1 \<mapsto> newEvent)\<rparr>)))"

definition getEventById :: "string \<Rightarrow> World \<Rightarrow> (error + Event option) \<times> World" where
  "getEventById i w =
     (case infra w of (failed, w1) \<Rightarrow>
        if failed then (Inl (Error ''database unavailable''), w1)
        else (Inr (events w1 i), emit (DbGet i) w1))"

definition updateEvent :: "string \<Rightarrow> UpdateEventData \<Rightarrow> World \<Rightarrow> (error + Event) \<times> World" where
  "updateEvent i u w =
     (case infra w of (failed, w1) \<Rightarrow>
        if failed then (Inl (Error ''database unavailable''), w1)
        else
          (case events w1 i of
             None \<Rightarrow> (Inl (Error ''record to update not found''), w1)
           | Some e \<Rightarrow>
               let updatedEvent = e\<lparr>status := upd_status u,
                                     retryCount := (case upd_retryCount u of None \<Rightarrow> retryCount e | Some r \<Rightarrow> r),
                                     updatedAt := dbNow w1\<rparr>
               in (Inr updatedEvent, emit (DbUpdate updatedEvent) (w1\<lparr>events := (events w1)(i \<mapsto> updatedEvent)\<rparr>))))"

section \<open>The queue and the broadcast\<close>

text \<open>
  \<open>eventQueue.add(name, data, opts)\<close> of BullMQ: the call fails with the queue, or the job
  is added and returned. \<open>broadcastEventUpdate\<close> (\<open>utils/websocket.ts\<close>) hands the message
  to the connected clients, or to the Redis channel, without waiting; it is one publication
  per call and is taken not to throw. \<open>eventData_of\<close> is the object literal that
  \<open>scheduleEvent\<close> and \<open>updateEventStatus\<close> both build from the row.
\<close>

definition eventQueue_add ::
  "string \<Rightarrow> SendEventJobData \<Rightarrow> int \<Rightarrow> nat \<Rightarrow> bool \<Rightarrow> bool \<Rightarrow> string \<Rightarrow> World \<Rightarrow> (error + Job) \<times> World" where
  "eventQueue_add name d dl att roc rof jid w =
     (case infra w of (failed, w1) \<Rightarrow>
        if failed then (Inl (Error ''queue unavailable''), w1)
        else
          let job = \<lparr>job_name = name, job_data = d, delay = dl, attempts = att,
                      removeOnComplete = roc, removeOnFail = rof, jobId = jid, attemptsMade = 0\<rparr>
          in (Inr job, emit (QueueAdd job) w1))"

definition broadcastEventUpdate :: "EventUpdate \<Rightarrow> World \<Rightarrow> World" where
  "broadcastEventUpdate eventData w = emit (Broadcast eventData) w"

definition eventData_of :: "Event \<Rightarrow> EventUpdate" where
  "eventData_of e =
     \<lparr>upd_id = id_ev e,
      upd_message = message e,
      upd_recipientEmail = recipientEmail e,
      upd_sendAt = sendAt e,
      upd_event_status = status e,
      upd_event_retryCount = retryCount e,
      upd_createdAt = createdAt e,
      upd_updatedAt = updatedAt e\<rparr>"

section \<open>\<open>EventService\<close> (\<open>services/event.service.ts\<close>)\<close>

definition scheduleEvent :: "CreateEventData \<Rightarrow> World \<Rightarrow> (error + Event) \<times> World" where
  "scheduleEvent d w =
     (case createEvent d w of
        (Inl err, w1) \<Rightarrow> (Inl (Error ''Failed to schedule event.''), w1)
      | (Inr newEvent, w1) \<Rightarrow>
          let dl = sendAt newEvent - dateNow w1;
              effectiveDelay = max 0 dl
          in
            (case eventQueue_add ''sendEvent''
                    \<lparr>eventId = id_ev newEvent,
                     job_recipientEmail = recipientEmail newEvent,
                     job_message = message newEvent\<rparr>
                    effectiveDelay 1 True False (id_ev newEvent) w1 of
               (Inl err, w2) \<Rightarrow> (Inl (Error ''Failed to schedule event.''), w2)
             | (Inr job, w2) \<Rightarrow>
                 (Inr newEvent, broadcastEventUpdate (eventData_of newEvent) w2)))"

definition getEventDetails :: "string \<Rightarrow> World \<Rightarrow> (error + Event option) \<times> World" where
  "getEventDetails i w =
     (case getEventById i w of
        (Inl err, w1) \<Rightarrow> (Inl (Error ''Failed to retrieve event details.''), w1)
      | (Inr event, w1) \<Rightarrow> (Inr event, w1))"

definition updateEventStatus ::
  "string \<Rightarrow> EventStatus \<Rightarrow> int option \<Rightarrow> World \<Rightarrow> (error + Event) \<times> World" where
  "updateEventStatus i st rc w =
     (let updateData = \<lparr>upd_status = st, upd_retryCount = rc\<rparr> in
      case updateEvent i updateData w of
        (Inl err, w1) \<Rightarrow> (Inl (Error ''Failed to update event status.''), w1)
      | (Inr updatedEvent, w1) \<Rightarrow>
          (Inr updatedEvent, broadcastEventUpdate (eventData_of updatedEvent) w1))"

section \<open>The worker (\<open>workers/event.worker.ts\<close>)\<close>

definition MAX_RETRIES :: int where
  "MAX_RETRIES = 3"

definition RETRY_DELAY_MS :: int where
  "RETRY_DELAY_MS = 1000"

text \<open>
  \<open>simulateSendMessage\<close> waits and draws a random boolean; here the boolean is the next
  entry of the world's script.
\<close>

definition simulateSendMessage :: "string \<Rightarrow> string \<Rightarrow> World \<Rightarrow> bool \<times> World" where
  "simulateSendMessage rcpt msg w =
     (case sends w of
        [] \<Rightarrow> (True, emit (Send rcpt msg) w)
      | s # ss \<Rightarrow> (s, emit (Send rcpt msg) (w\<lparr>sends := ss\<rparr>)))"

text \<open>
  The processor function of \<open>eventWorker\<close>. Its \<open>catch\<close> block logs and rethrows, so
  every error of the body is the error of the job. \<open>retryDelay\<close> is
  \<open>RETRY_DELAY_MS * Math.pow(2, currentRetryCount)\<close>, a rational for a negative count; its
  only use is the warning, which is the one console line the trace keeps. The worker file
  never refers to \<open>eventQueue\<close>. The sources hold a second copy of the worker, which
  differs in the text of the error after RETRIED and in the start-up code only.
\<close>

definition retryDelay_of :: "int \<Rightarrow> rat" where
  "retryDelay_of currentRetryCount = of_int RETRY_DELAY_MS * 2 powi currentRetryCount"

definition eventWorker :: "Job \<Rightarrow> World \<Rightarrow> (error + unit) \<times> World" where
  "eventWorker job w =
     (let eid = eventId (job_data job);
          rcpt = job_recipientEmail (job_data job);
          msg = job_message (job_data job)
      in
      case updateEventStatus eid PROCESSING None w of
        (Inl err, w1) \<Rightarrow> (Inl err, w1)
      | (Inr p, w1) \<Rightarrow>
          (case simulateSendMessage rcpt msg w1 of (sendSuccess, w2) \<Rightarrow>
             if sendSuccess then
               (case updateEventStatus eid SENT None w2 of
                  (Inl err, w3) \<Rightarrow> (Inl err, w3)
                | (Inr s, w3) \<Rightarrow> (Inr (), w3))
             else
               (case getEventDetails eid w2 of
                  (Inl err, w3) \<Rightarrow> (Inl err, w3)
                | (Inr None, w3) \<Rightarrow> (Inl (Error (''Event '' @ eid @ '' not found.'')), w3)
                | (Inr (Some event), w3) \<Rightarrow>
                    let currentRetryCount = retryCount event in
                    if currentRetryCount < MAX_RETRIES then
                      let nextRetryCount = currentRetryCount + 1;
                          retryDelay = retryDelay_of currentRetryCount;
                          w4 = emit (RetryWarning eid nextRetryCount retryDelay) w3
                      in
                        (case updateEventStatus eid RETRIED (Some nextRetryCount) w4 of
                           (Inl err, w5) \<Rightarrow> (Inl err, w5)
                         | (Inr r, w5) \<Rightarrow>
                             (Inl (Error ''Simulated send failure, marking for potential retry by external system or monitoring.''), w5))
                    else
                      (case updateEventStatus eid FAILED None w3 of
                         (Inl err, w4) \<Rightarrow> (Inl err, w4)
                       | (Inr f, w4) \<Rightarrow>
                           (Inl (Error (''Event '' @ eid @ '' failed after maximum retries.'')), w4)))))"

section \<open>Runs of the core\<close>

text \<open>
  A run is a sequence of operations on the world: the outside moves (clocks, the next
  \<open>uuid()\<close>, the scripts of faults and send outcomes), a request is scheduled, or the queue
  releases a job to the worker. Any job may be released at any time, which covers the
  queue's redelivery of a job.
\<close>

datatype Op =
    Outside int int string "bool list" "bool list"
  | Schedule CreateEventData
  | Release Job

fun apply_op :: "Op \<Rightarrow> World \<Rightarrow> World" where
  "apply_op (Outside t n u fs ss) w = w\<lparr>dbNow := t, dateNow := n, uuid := u, faults := fs, sends := ss\<rparr>"
| "apply_op (Schedule d) w = snd (scheduleEvent d w)"
| "apply_op (Release job) w = snd (eventWorker job w)"

fun run :: "Op list \<Rightarrow> World \<Rightarrow> World" where
  "run [] w = w"
| "run (x # xs) w = run xs (apply_op x w)"

fun carries :: "string \<Rightarrow> Op \<Rightarrow> bool" where
  "carries i (Release job) = (eventId (job_data job) = i)"
| "carries i x = False"

text \<open>
  \<open>updates_announced es\<close>: in the effects \<open>es\<close>, every database update is followed at once
  by the broadcast of the updated row, and no other broadcast occurs.
\<close>

fun updates_announced :: "Effect list \<Rightarrow> bool" where
  "updates_announced [] = True"
| "updates_announced (DbUpdate e # Broadcast m # es) = (m = eventData_of e \<and> updates_announced es)"
| "updates_announced (DbUpdate e # es) = False"
| "updates_announced (Broadcast m # es) = False"
| "updates_announced (x # es) = updates_announced es"

section \<open>Concrete inputs\<close>

text \<open>
  One request, the row and the job that scheduling it yields, and the empty world with
  given scripts of faults and send outcomes.
\<close>

definition request1 :: CreateEventData where
  "request1 = \<lparr>data_message = ''hello'', data_recipientEmail = ''a@b.c'', data_sendAt = 3005\<rparr>"

definition request_past :: CreateEventData where
  "request_past = \<lparr>data_message = ''late'', data_recipientEmail = ''a@b.c'', data_sendAt = 5\<rparr>"

definition event1 :: Event where
  "event1 = \<lparr>id_ev = ''e1'', message = ''hello'', recipientEmail = ''a@b.c'', sendAt = 3005,
              status = SCHEDULED, retryCount = 0, createdAt = 1000, updatedAt = 1000\<rparr>"

definition job1 :: Job where
  "job1 = \<lparr>job_name = ''sendEvent'',
            job_data = \<lparr>eventId = ''e1'', job_recipientEmail = ''a@b.c'', job_message = ''hello''\<rparr>,
            delay = 2000, attempts = 1, removeOnComplete = True, removeOnFail = False,
            jobId = ''e1'', attemptsMade = 0\<rparr>"

definition world_with :: "bool list \<Rightarrow> bool list \<Rightarrow> World" where
  "world_with fs ss =
     \<lparr>events = Map.empty, trace = [], dbNow = 1000, dateNow = 1005, uuid = ''e1'',
      faults = fs, sends = ss\<rparr>"

section \<open>What each call does to the table and to the trace\<close>

lemma infra_frame:
  "infra w = (f, w1) \<Longrightarrow> events w1 = events w \<and> trace w1 = trace w \<and> dbNow w1 = dbNow w \<and> dateNow w1 = dateNow w \<and> uuid w1 = uuid w \<and> sends w1 = sends w"
  by (auto simp: infra_def split: list.splits)

lemma updateEvent_Inr:
  "updateEvent i u w = (Inr e, w') \<Longrightarrow>
     \<exists>old. events w i = Some old
       \<and> e = old\<lparr>status := upd_status u,
                 retryCount := (case upd_retryCount u of None \<Rightarrow> retryCount old | Some r \<Rightarrow> r),
                 updatedAt := dbNow w\<rparr>
       \<and> events w' = (events w)(i \<mapsto> e) \<and> trace w' = trace w @ [DbUpdate e] \<and> dbNow w' = dbNow w"
  by (auto simp: updateEvent_def emit_def Let_def split: prod.splits if_splits option.splits dest!: infra_frame)

lemma updateEvent_Inl:
  "updateEvent i u w = (Inl err, w') \<Longrightarrow> events w' = events w \<and> trace w' = trace w \<and> dbNow w' = dbNow w"
  by (auto simp: updateEvent_def emit_def Let_def split: prod.splits if_splits option.splits dest!: infra_frame)

lemma updateEventStatus_Inr:
  "updateEventStatus i st rc w = (Inr e, w') \<Longrightarrow>
     \<exists>old. events w i = Some old
       \<and> e = old\<lparr>status := st,
                 retryCount := (case rc of None \<Rightarrow> retryCount old | Some r \<Rightarrow> r),
                 updatedAt := dbNow w\<rparr>
       \<and> events w' = (events w)(i \<mapsto> e)
       \<and> trace w' = trace w @ [DbUpdate e, Broadcast (eventData_of e)] \<and> dbNow w' = dbNow w"
  by (auto simp: updateEventStatus_def broadcastEventUpdate_def emit_def Let_def
      split: prod.splits sum.splits dest!: updateEvent_Inr)

lemma updateEventStatus_Inl:
  "updateEventStatus i st rc w = (Inl err, w') \<Longrightarrow>
     err = Error ''Failed to update event status.'' \<and> events w' = events w \<and> trace w' = trace w \<and> dbNow w' = dbNow w"
  by (auto simp: updateEventStatus_def broadcastEventUpdate_def emit_def Let_def
      split: prod.splits sum.splits dest!: updateEvent_Inl)

lemma getEventDetails_Inr:
  "getEventDetails i w = (Inr r, w') \<Longrightarrow> r = events w i \<and> events w' = events w \<and> trace w' = trace w @ [DbGet i] \<and> dbNow w' = dbNow w"
  by (auto simp: getEventDetails_def getEventById_def emit_def split: prod.splits sum.splits if_splits dest!: infra_frame)

lemma getEventDetails_Inl:
  "getEventDetails i w = (Inl err, w') \<Longrightarrow> err = Error ''Failed to retrieve event details.'' \<and> events w' = events w \<and> trace w' = trace w \<and> dbNow w' = dbNow w"
  by (auto simp: getEventDetails_def getEventById_def emit_def split: prod.splits sum.splits if_splits dest!: infra_frame)

lemma simulateSendMessage_frame:
  "simulateSendMessage r m w = (b, w') \<Longrightarrow> events w' = events w \<and> trace w' = trace w @ [Send r m] \<and> dbNow w' = dbNow w"
  by (auto simp: simulateSendMessage_def emit_def split: list.splits)

lemma eventWorker_cases:
  assumes run: "eventWorker job w = (r, w')"
  shows "(r = Inl (Error ''Failed to update event status.'') \<and> events w' = events w \<and> trace w' = trace w)
    \<or> (\<exists>old p. events w (eventId (job_data job)) = Some old \<and> p = old\<lparr>status := PROCESSING, updatedAt := dbNow w\<rparr> \<and>
         (let eid = eventId (job_data job);
              pre = trace w @ [DbUpdate p, Broadcast (eventData_of p),
                               Send (job_recipientEmail (job_data job)) (job_message (job_data job))];
              s = old\<lparr>status := SENT, updatedAt := dbNow w\<rparr>;
              rt = old\<lparr>status := RETRIED, retryCount := retryCount old + 1, updatedAt := dbNow w\<rparr>;
              f = old\<lparr>status := FAILED, updatedAt := dbNow w\<rparr>
          in (r = Inr () \<and> events w' = (events w)(eid \<mapsto> s) \<and> trace w' = pre @ [DbUpdate s, Broadcast (eventData_of s)])
           \<or> (r = Inl (Error ''Failed to update event status.'') \<and> events w' = (events w)(eid \<mapsto> p) \<and> trace w' = pre)
           \<or> (r = Inl (Error ''Failed to retrieve event details.'') \<and> events w' = (events w)(eid \<mapsto> p) \<and> trace w' = pre)
           \<or> (retryCount old < 3 \<and> r = Inl (Error ''Simulated send failure, marking for potential retry by external system or monitoring.'')
                \<and> events w' = (events w)(eid \<mapsto> rt)
                \<and> trace w' = pre @ [DbGet eid, RetryWarning eid (retryCount old + 1) (retryDelay_of (retryCount old)),
                                    DbUpdate rt, Broadcast (eventData_of rt)])
           \<or> (retryCount old < 3 \<and> r = Inl (Error ''Failed to update event status.'')
                \<and> events w' = (events w)(eid \<mapsto> p)
                \<and> trace w' = pre @ [DbGet eid, RetryWarning eid (retryCount old + 1) (retryDelay_of (retryCount old))])
           \<or> (\<not> retryCount old < 3 \<and> r = Inl (Error (''Event '' @ eventId (job_data job) @ '' failed after maximum retries.''))
                \<and> events w' = (events w)(eid \<mapsto> f)
                \<and> trace w' = pre @ [DbGet eid, DbUpdate f, Broadcast (eventData_of f)])
           \<or> (\<not> retryCount old < 3 \<and> r = Inl (Error ''Failed to update event status.'')
                \<and> events w' = (events w)(eid \<mapsto> p)
                \<and> trace w' = pre @ [DbGet eid])))"
proof -
  define eid where "eid = eventId (job_data job)"
  define rcpt where "rcpt = job_recipientEmail (job_data job)"
  define msg where "msg = job_message (job_data job)"
  note names = eid_def [symmetric] rcpt_def [symmetric] msg_def [symmetric]
  obtain r1 w1 where u1: "updateEventStatus eid PROCESSING None w = (r1, w1)"
    by (cases "updateEventStatus eid PROCESSING None w")
  show ?thesis
  proof (cases r1)
    case (Inl e1)
    with run u1 have "r = Inl e1" "w' = w1"
      by (simp_all add: eventWorker_def Let_def names)
    with updateEventStatus_Inl [OF u1 [unfolded Inl]] show ?thesis by simp
  next
    case (Inr p)
    from updateEventStatus_Inr [OF u1 [unfolded Inr]]
    obtain old where old: "events w eid = Some old"
      and p: "p = old\<lparr>status := PROCESSING, updatedAt := dbNow w\<rparr>"
      and ev1: "events w1 = (events w)(eid \<mapsto> p)"
      and tr1: "trace w1 = trace w @ [DbUpdate p, Broadcast (eventData_of p)]"
      and db1: "dbNow w1 = dbNow w"
      by auto
    obtain b w2 where s2: "simulateSendMessage rcpt msg w1 = (b, w2)"
      by (cases "simulateSendMessage rcpt msg w1")
    from simulateSendMessage_frame [OF s2]
    have ev2: "events w2 = (events w)(eid \<mapsto> p)"
      and tr2: "trace w2 = trace w @ [DbUpdate p, Broadcast (eventData_of p), Send rcpt msg]"
      and db2: "dbNow w2 = dbNow w"
      by (simp_all add: ev1 tr1 db1)
    show ?thesis
    proof (cases b)
      case True
      obtain r3 w3 where u3: "updateEventStatus eid SENT None w2 = (r3, w3)"
        by (cases "updateEventStatus eid SENT None w2")
      show ?thesis
      proof (cases r3)
        case (Inl e3)
        with run u1 Inr s2 True u3 have "r = Inl e3" "w' = w3"
          by (simp_all add: eventWorker_def Let_def names)
        with updateEventStatus_Inl [OF u3 [unfolded Inl]] old p ev2 tr2 show ?thesis
          by (simp add: Let_def names)
      next
        case (Inr s)
        with run u1 \<open>r1 = Inr p\<close> s2 True u3 have "r = Inr ()" "w' = w3"
          by (simp_all add: eventWorker_def Let_def names)
        with updateEventStatus_Inr [OF u3 [unfolded Inr]] old p ev2 tr2 db2 show ?thesis
          by (auto simp add: Let_def names)
      qed
    next
      case False
      obtain r3 w3 where g3: "getEventDetails eid w2 = (r3, w3)"
        by (cases "getEventDetails eid w2")
      show ?thesis
      proof (cases r3)
        case (Inl e3)
        with run u1 Inr s2 False g3 have "r = Inl e3" "w' = w3"
          by (simp_all add: eventWorker_def Let_def names)
        with getEventDetails_Inl [OF g3 [unfolded Inl]] old p ev2 tr2 show ?thesis
          by (simp add: Let_def names)
      next
        case (Inr found)
        from getEventDetails_Inr [OF g3 [unfolded Inr]]
        have found: "found = Some p"
          and ev3: "events w3 = (events w)(eid \<mapsto> p)"
          and tr3: "trace w3 = trace w @ [DbUpdate p, Broadcast (eventData_of p), Send rcpt msg, DbGet eid]"
          and db3: "dbNow w3 = dbNow w"
          by (simp_all add: ev2 tr2 db2)
        have rc: "retryCount p = retryCount old" by (simp add: p)
        show ?thesis
        proof (cases "retryCount old < 3")
          case True
          define w4 where "w4 = emit (RetryWarning eid (retryCount old + 1) (retryDelay_of (retryCount old))) w3"
          have ev4: "events w4 = (events w)(eid \<mapsto> p)"
            and tr4: "trace w4 = trace w @ [DbUpdate p, Broadcast (eventData_of p), Send rcpt msg, DbGet eid,
                         RetryWarning eid (retryCount old + 1) (retryDelay_of (retryCount old))]"
            and db4: "dbNow w4 = dbNow w"
            by (simp_all add: w4_def emit_def ev3 tr3 db3)
          obtain r5 w5 where u5: "updateEventStatus eid RETRIED (Some (retryCount old + 1)) w4 = (r5, w5)"
            by (cases "updateEventStatus eid RETRIED (Some (retryCount old + 1)) w4")
          show ?thesis
          proof (cases r5)
            case (Inl e5)
            with run u1 \<open>r1 = Inr p\<close> s2 False g3 \<open>r3 = Inr found\<close> found rc True u5
            have "r = Inl e5" "w' = w5"
              by (simp_all add: eventWorker_def Let_def names MAX_RETRIES_def w4_def)
            with updateEventStatus_Inl [OF u5 [unfolded Inl]] old p ev4 tr4 True show ?thesis
              by (simp add: Let_def names)
          next
            case (Inr rt)
            with run u1 \<open>r1 = Inr p\<close> s2 False g3 \<open>r3 = Inr found\<close> found rc True u5
            have "r = Inl (Error ''Simulated send failure, marking for potential retry by external system or monitoring.'')" "w' = w5"
              by (simp_all add: eventWorker_def Let_def names MAX_RETRIES_def w4_def)
            with updateEventStatus_Inr [OF u5 [unfolded Inr]] old p ev4 tr4 db4 True show ?thesis
              by (auto simp add: Let_def names)
          qed
        next
          case False
          obtain r4 w4 where u4: "updateEventStatus eid FAILED None w3 = (r4, w4)"
            by (cases "updateEventStatus eid FAILED None w3")
          show ?thesis
          proof (cases r4)
            case (Inl e4)
            with run u1 \<open>r1 = Inr p\<close> s2 \<open>\<not> b\<close> g3 \<open>r3 = Inr found\<close> found rc False u4
            have "r = Inl e4" "w' = w4"
              by (simp_all add: eventWorker_def Let_def names MAX_RETRIES_def)
            with updateEventStatus_Inl [OF u4 [unfolded Inl]] old p ev3 tr3 False show ?thesis
              by (simp add: Let_def names)
          next
            case (Inr f)
            with run u1 \<open>r1 = Inr p\<close> s2 \<open>\<not> b\<close> g3 \<open>r3 = Inr found\<close> found rc False u4
            have "r = Inl (Error (''Event '' @ eventId (job_data job) @ '' failed after maximum retries.''))" "w' = w4"
              by (simp_all add: eventWorker_def Let_def names MAX_RETRIES_def)
            with updateEventStatus_Inr [OF u4 [unfolded Inr]] old p ev3 tr3 db3 False show ?thesis
              by (auto simp add: Let_def names)
          qed
        qed
      qed
    qed
  qed
qed

lemma enqueued_append: "enqueued (xs @ ys) = enqueued xs @ enqueued ys"
  by (induction xs rule: enqueued.induct) simp_all

lemma published_append: "published (xs @ ys) = published xs @ published ys"
  by (induction xs rule: published.induct) simp_all

lemma createEvent_Inr:
  "createEvent d w = (Inr e, w1) \<Longrightarrow>
     events w (uuid w) = None
     \<and> e = \<lparr>id_ev = uuid w, message = data_message d, recipientEmail = data_recipientEmail d,
             sendAt = data_sendAt d, status = SCHEDULED, retryCount = 0,
             createdAt = dbNow w, updatedAt = dbNow w\<rparr>
     \<and> events w1 = (events w)(uuid w \<mapsto> e) \<and> trace w1 = trace w @ [DbCreate e]
     \<and> dateNow w1 = dateNow w"
  by (auto simp: createEvent_def emit_def Let_def split: prod.splits if_splits dest!: infra_frame)

lemma createEvent_Inl:
  "createEvent d w = (Inl err, w1) \<Longrightarrow> events w1 = events w \<and> trace w1 = trace w"
  by (auto simp: createEvent_def emit_def Let_def split: prod.splits if_splits dest!: infra_frame)

lemma eventQueue_add_Inr:
  "eventQueue_add name jd dl att roc rof jid w = (Inr job, w') \<Longrightarrow>
     job = \<lparr>job_name = name, job_data = jd, delay = dl, attempts = att, removeOnComplete = roc,
            removeOnFail = rof, jobId = jid, attemptsMade = 0\<rparr>
     \<and> events w' = events w \<and> trace w' = trace w @ [QueueAdd job]"
  by (auto simp: eventQueue_add_def emit_def Let_def split: prod.splits if_splits dest!: infra_frame)

lemma eventQueue_add_Inl:
  "eventQueue_add name jd dl att roc rof jid w = (Inl err, w') \<Longrightarrow>
     events w' = events w \<and> trace w' = trace w"
  by (auto simp: eventQueue_add_def emit_def Let_def split: prod.splits if_splits dest!: infra_frame)

lemma scheduleEvent_cases:
  assumes run: "scheduleEvent d w = (r, w')"
  shows "(r = Inl (Error ''Failed to schedule event.'') \<and> events w' = events w \<and> trace w' = trace w)
    \<or> (\<exists>e job. events w (uuid w) = None
          \<and> e = \<lparr>id_ev = uuid w, message = data_message d, recipientEmail = data_recipientEmail d,
                  sendAt = data_sendAt d, status = SCHEDULED, retryCount = 0,
                  createdAt = dbNow w, updatedAt = dbNow w\<rparr>
          \<and> job = \<lparr>job_name = ''sendEvent'',
                    job_data = \<lparr>eventId = uuid w, job_recipientEmail = data_recipientEmail d,
                                 job_message = data_message d\<rparr>,
                    delay = max 0 (data_sendAt d - dateNow w), attempts = 1,
                    removeOnComplete = True, removeOnFail = False, jobId = uuid w, attemptsMade = 0\<rparr>
          \<and> events w' = (events w)(uuid w \<mapsto> e)
          \<and> ((r = Inl (Error ''Failed to schedule event.'') \<and> trace w' = trace w @ [DbCreate e])
             \<or> (r = Inr e \<and> trace w' = trace w @ [DbCreate e, QueueAdd job, Broadcast (eventData_of e)])))"
proof -
  obtain r1 w1 where c1: "createEvent d w = (r1, w1)"
    by (cases "createEvent d w")
  show ?thesis
  proof (cases r1)
    case (Inl e1)
    with run c1 have "r = Inl (Error ''Failed to schedule event.'')" "w' = w1"
      by (simp_all add: scheduleEvent_def)
    with createEvent_Inl [OF c1 [unfolded Inl]] show ?thesis by simp
  next
    case (Inr e)
    note c = createEvent_Inr [OF c1 [unfolded Inr]]
    let ?jd = "\<lparr>eventId = id_ev e, job_recipientEmail = recipientEmail e, job_message = message e\<rparr>"
    let ?dl = "max 0 (sendAt e - dateNow w1)"
    obtain r2 w2 where q2: "eventQueue_add ''sendEvent'' ?jd ?dl 1 True False (id_ev e) w1 = (r2, w2)"
      by (cases "eventQueue_add ''sendEvent'' ?jd ?dl 1 True False (id_ev e) w1")
    show ?thesis
    proof (cases r2)
      case (Inl e2)
      with run c1 \<open>r1 = Inr e\<close> q2 have "r = Inl (Error ''Failed to schedule event.'')" "w' = w2"
        by (simp_all add: scheduleEvent_def Let_def)
      with eventQueue_add_Inl [OF q2 [unfolded Inl]] c show ?thesis by simp
    next
      case (Inr job)
      with run c1 \<open>r1 = Inr e\<close> q2 have "r = Inr e" "w' = broadcastEventUpdate (eventData_of e) w2"
        by (simp_all add: scheduleEvent_def Let_def)
      with eventQueue_add_Inr [OF q2 [unfolded Inr]] c show ?thesis
        by (simp add: broadcastEventUpdate_def emit_def)
    qed
  qed
qed

lemma eventWorker_frame:
  assumes "eventWorker job w = (r, w')" and "i \<noteq> eventId (job_data job)"
  shows "events w' i = events w i"
  using eventWorker_cases [OF assms(1)] assms(2) by (auto simp: Let_def)


lemma eventWorker_announced:
  assumes "eventWorker job w = (r, w')"
  shows "\<exists>es. trace w' = trace w @ es \<and> updates_announced es"
  using eventWorker_cases [OF assms] by (auto simp: Let_def)

lemma eventWorker_item:
  assumes "eventWorker job w = (r, w')" and "events w i = Some e"
  shows "\<exists>e'. events w' i = Some e' \<and> retryCount e \<le> retryCount e'
            \<and> (retryCount e \<le> 3 \<longrightarrow> retryCount e' \<le> 3)
            \<and> (status e' = FAILED \<longrightarrow> retryCount e' = retryCount e \<and> (status e = FAILED \<or> 3 \<le> retryCount e))"
  using eventWorker_cases [OF assms(1)] assms(2)
  by (cases "i = eventId (job_data job)") (auto simp: Let_def)

lemma eventWorker_absent:
  assumes "eventWorker job w = (r, w')" and "events w i = None"
  shows "events w' i = None"
  using eventWorker_cases [OF assms(1)] assms(2)
  by (cases "i = eventId (job_data job)") (auto simp: Let_def)

section \<open>Scheduling\<close>

lemmas model_defs = scheduleEvent_def createEvent_def eventQueue_add_def broadcastEventUpdate_def
  infra_def emit_def eventData_of_def updateEventStatus_def updateEvent_def getEventDetails_def
  getEventById_def simulateSendMessage_def eventWorker_def MAX_RETRIES_def RETRY_DELAY_MS_def
  retryDelay_of_def Let_def

lemmas input_defs = request1_def request_past_def event1_def job1_def world_with_def

text \<open>
  Claim C5. Within every successful \<open>scheduleEvent\<close> call the three effects occur in this
  order: the row is created in the store, then the job is added to the queue, then the
  broadcast is published; the call then returns the created row, which is the stored one.
  The call adds exactly these three effects to the trace.
\<close>
theorem scheduleEvent_effect_order:
  assumes "scheduleEvent d w = (Inr newEvent, w')"
  shows "events w' (id_ev newEvent) = Some newEvent
       \<and> (\<exists>job. trace w' = trace w @ [DbCreate newEvent, QueueAdd job, Broadcast (eventData_of newEvent)])"
  using scheduleEvent_cases [OF assms] by auto

theorem scheduleEvent_effect_order_witness:
  "scheduleEvent request1 (world_with [] []) = (Inr event1, snd (scheduleEvent request1 (world_with [] [])))
   \<and> events (snd (scheduleEvent request1 (world_with [] []))) ''e1'' = Some event1
   \<and> trace (snd (scheduleEvent request1 (world_with [] [])))
       = [DbCreate event1, QueueAdd job1, Broadcast (eventData_of event1)]"
proof -
  have h: "scheduleEvent request1 (world_with [] []) = (Inr event1, snd (scheduleEvent request1 (world_with [] [])))"
    by (simp add: model_defs input_defs)
  from scheduleEvent_effect_order [OF h] h show ?thesis
    by (simp add: model_defs input_defs)
qed

text \<open>
  Claim C6. If the durable create fails, \<open>scheduleEvent\<close> fails with its error, and nothing
  else has happened: the table and the trace are as before, so no job was enqueued and no
  broadcast was published.
\<close>
theorem scheduleEvent_create_fails:
  assumes "createEvent d w = (Inl err, w1)"
  shows "scheduleEvent d w = (Inl (Error ''Failed to schedule event.''), w1)
       \<and> events w1 = events w \<and> trace w1 = trace w
       \<and> enqueued (trace w1) = enqueued (trace w) \<and> published (trace w1) = published (trace w)"
  using assms createEvent_Inl [OF assms] by (simp add: scheduleEvent_def)

theorem scheduleEvent_create_fails_witness:
  "createEvent request1 (world_with [True] []) = (Inl (Error ''database unavailable''), world_with [] [])
   \<and> scheduleEvent request1 (world_with [True] []) = (Inl (Error ''Failed to schedule event.''), world_with [] [])
   \<and> events (world_with [] []) = Map.empty \<and> trace (world_with [] []) = []"
proof -
  have h: "createEvent request1 (world_with [True] []) = (Inl (Error ''database unavailable''), world_with [] [])"
    by (simp add: model_defs input_defs)
  from scheduleEvent_create_fails [OF h] h show ?thesis
    by (simp add: input_defs)
qed

text \<open>
  Claim C9. A \<open>scheduleEvent\<close> call that returns a row has created it with status
  SCHEDULED and \<open>retryCount\<close> 0 and has enqueued exactly one job, whose \<open>jobId\<close> (and
  \<open>eventId\<close>) is the row's id and whose delay is \<open>max 0 (sendAt - now)\<close>, that is 0 for
  every \<open>sendAt\<close> in the past. Whether the call returns a row does not depend on \<open>sendAt\<close>:
  it does whenever the database and the queue answer and the drawn id is new.
\<close>
theorem scheduleEvent_created_and_enqueued:
  "(scheduleEvent d w = (Inr newEvent, w') \<longrightarrow>
      status newEvent = SCHEDULED \<and> retryCount newEvent = 0
      \<and> events w' (id_ev newEvent) = Some newEvent
      \<and> (\<exists>job. enqueued (trace w') = enqueued (trace w) @ [job]
            \<and> jobId job = id_ev newEvent \<and> eventId (job_data job) = id_ev newEvent
            \<and> delay job = max 0 (data_sendAt d - dateNow w)
            \<and> (data_sendAt d \<le> dateNow w \<longrightarrow> delay job = 0)))
   \<and> (True \<notin> set (take 2 (faults w)) \<and> events w (uuid w) = None \<longrightarrow>
        (\<exists>newEvent w'. scheduleEvent d w = (Inr newEvent, w')))"
proof (intro conjI impI)
  assume run: "scheduleEvent d w = (Inr newEvent, w')"
  from scheduleEvent_cases [OF run]
  show "status newEvent = SCHEDULED" "retryCount newEvent = 0"
    "events w' (id_ev newEvent) = Some newEvent"
    "\<exists>job. enqueued (trace w') = enqueued (trace w) @ [job]
            \<and> jobId job = id_ev newEvent \<and> eventId (job_data job) = id_ev newEvent
            \<and> delay job = max 0 (data_sendAt d - dateNow w)
            \<and> (data_sendAt d \<le> dateNow w \<longrightarrow> delay job = 0)"
    by (auto simp: enqueued_append)
next
  assume ok: "True \<notin> set (take 2 (faults w)) \<and> events w (uuid w) = None"
  show "\<exists>newEvent w'. scheduleEvent d w = (Inr newEvent, w')"
  proof (cases "faults w")
    case Nil
    with ok show ?thesis by (simp add: model_defs)
  next
    case (Cons f fs)
    with ok show ?thesis by (cases fs) (auto simp add: model_defs)
  qed
qed

theorem scheduleEvent_created_and_enqueued_witness:
  "scheduleEvent request_past (world_with [] []) =
      (Inr (event1\<lparr>message := ''late'', sendAt := 5\<rparr>), snd (scheduleEvent request_past (world_with [] [])))
   \<and> enqueued (trace (snd (scheduleEvent request_past (world_with [] []))))
       = [job1\<lparr>job_data := (job_data job1)\<lparr>job_message := ''late''\<rparr>, delay := 0\<rparr>]
   \<and> True \<notin> set (take 2 (faults (world_with [] [])))
   \<and> events (world_with [] []) (uuid (world_with [] [])) = None"
proof -
  have h: "scheduleEvent request_past (world_with [] []) =
      (Inr (event1\<lparr>message := ''late'', sendAt := 5\<rparr>), snd (scheduleEvent request_past (world_with [] [])))"
    by (simp add: model_defs input_defs)
  from scheduleEvent_created_and_enqueued
         [of request_past "world_with [] []" "event1\<lparr>message := ''late'', sendAt := 5\<rparr>"
             "snd (scheduleEvent request_past (world_with [] []))"] h
  show ?thesis
    by (simp add: model_defs input_defs)
qed

text \<open>
  Claim C10. If the create succeeds and the queue call that follows fails, \<open>scheduleEvent\<close>
  fails with ``Failed to schedule event.'', the created row stays in the table with status
  SCHEDULED and \<open>retryCount\<close> 0 (the only effect of the call is the create), and no
  broadcast is published.
\<close>
theorem scheduleEvent_enqueue_fails:
  assumes "createEvent d w = (Inr newEvent, w1)" and "faults w1 = True # fs"
  shows "scheduleEvent d w = (Inl (Error ''Failed to schedule event.''), w1\<lparr>faults := fs\<rparr>)
       \<and> events (w1\<lparr>faults := fs\<rparr>) (id_ev newEvent) = Some newEvent
       \<and> status newEvent = SCHEDULED \<and> retryCount newEvent = 0
       \<and> trace (w1\<lparr>faults := fs\<rparr>) = trace w @ [DbCreate newEvent]
       \<and> published (trace (w1\<lparr>faults := fs\<rparr>)) = published (trace w)
       \<and> enqueued (trace (w1\<lparr>faults := fs\<rparr>)) = enqueued (trace w)"
  using assms createEvent_Inr [OF assms(1)]
  by (simp add: scheduleEvent_def eventQueue_add_def infra_def Let_def published_append enqueued_append)

theorem scheduleEvent_enqueue_fails_witness:
  "createEvent request1 (world_with [False, True] []) =
      (Inr event1, (world_with [True] [])\<lparr>events := [''e1'' \<mapsto> event1], trace := [DbCreate event1]\<rparr>)
   \<and> scheduleEvent request1 (world_with [False, True] []) =
      (Inl (Error ''Failed to schedule event.''),
       (world_with [] [])\<lparr>events := [''e1'' \<mapsto> event1], trace := [DbCreate event1]\<rparr>)
   \<and> published (trace (snd (scheduleEvent request1 (world_with [False, True] [])))) = []"
proof -
  have h: "createEvent request1 (world_with [False, True] []) =
      (Inr event1, (world_with [True] [])\<lparr>events := [''e1'' \<mapsto> event1], trace := [DbCreate event1]\<rparr>)"
    by (simp add: model_defs input_defs)
  have f: "faults ((world_with [True] [])\<lparr>events := [''e1'' \<mapsto> event1], trace := [DbCreate event1]\<rparr>) = True # []"
    by (simp add: input_defs)
  from scheduleEvent_enqueue_fails [OF h f] h show ?thesis
    by (simp add: input_defs)
qed

section \<open>Runs: the retry count and the terminal states\<close>

lemma apply_op_frame:
  assumes "\<not> carries i x" and "events w i = Some e"
  shows "events (apply_op x w) i = Some e"
proof (cases x)
  case (Outside t n u fs ss)
  with assms show ?thesis by simp
next
  case (Schedule d)
  obtain r w' where s: "scheduleEvent d w = (r, w')" by (cases "scheduleEvent d w")
  from scheduleEvent_cases [OF s] assms(2) have "events w' i = Some e" by auto
  with s Schedule show ?thesis by simp
next
  case (Release job)
  obtain r w' where s: "eventWorker job w = (r, w')" by (cases "eventWorker job w")
  from assms(1) Release have "i \<noteq> eventId (job_data job)" by auto
  from eventWorker_frame [OF s this] assms(2) s Release show ?thesis by simp
qed

lemma apply_op_grows:
  assumes "events w i = Some e"
  shows "\<exists>e'. events (apply_op x w) i = Some e' \<and> retryCount e \<le> retryCount e'
            \<and> (retryCount e \<le> 3 \<longrightarrow> retryCount e' \<le> 3)
            \<and> (status e' = FAILED \<longrightarrow> retryCount e' = retryCount e \<and> (status e = FAILED \<or> 3 \<le> retryCount e))"
proof (cases x)
  case (Outside t n u fs ss)
  with assms show ?thesis by simp
next
  case (Schedule d)
  with apply_op_frame [of i x w e] assms show ?thesis by simp
next
  case (Release job)
  obtain r w' where s: "eventWorker job w = (r, w')" by (cases "eventWorker job w")
  from eventWorker_item [OF s assms] s Release show ?thesis by simp
qed

lemma apply_op_new:
  assumes "events w i = None" and "events (apply_op x w) i = Some e"
  shows "retryCount e = 0 \<and> status e = SCHEDULED"
proof (cases x)
  case (Outside t n u fs ss)
  with assms show ?thesis by simp
next
  case (Schedule d)
  obtain r w' where s: "scheduleEvent d w = (r, w')" by (cases "scheduleEvent d w")
  from assms(2) s Schedule have "events w' i = Some e" by simp
  with scheduleEvent_cases [OF s] assms(1) show ?thesis by (auto split: if_splits)
next
  case (Release job)
  obtain r w' where s: "eventWorker job w = (r, w')" by (cases "eventWorker job w")
  from eventWorker_absent [OF s assms(1)] assms(2) s Release show ?thesis by simp
qed

lemma apply_op_bounds:
  assumes inv: "\<And>i e. events w i = Some e \<Longrightarrow> 0 \<le> retryCount e \<and> retryCount e \<le> 3 \<and> (status e = FAILED \<longrightarrow> retryCount e = 3)"
    and after: "events (apply_op x w) i = Some e'"
  shows "0 \<le> retryCount e' \<and> retryCount e' \<le> 3 \<and> (status e' = FAILED \<longrightarrow> retryCount e' = 3)"
proof (cases "events w i")
  case None
  from apply_op_new [OF None after] show ?thesis by simp
next
  case (Some e)
  from apply_op_grows [OF Some, of x] after inv [OF Some] show ?thesis by auto
qed

lemma run_append: "run (xs @ ys) w = run ys (run xs w)"
  by (induction xs arbitrary: w) simp_all

lemma run_bounds:
  assumes "\<And>i e. events w i = Some e \<Longrightarrow> 0 \<le> retryCount e \<and> retryCount e \<le> 3 \<and> (status e = FAILED \<longrightarrow> retryCount e = 3)"
    and "events (run ops w) i = Some e'"
  shows "0 \<le> retryCount e' \<and> retryCount e' \<le> 3 \<and> (status e' = FAILED \<longrightarrow> retryCount e' = 3)"
  using assms
proof (induction ops arbitrary: w i e')
  case Nil
  then show ?case by simp
next
  case (Cons x xs)
  show ?case
  proof (rule Cons.IH [of "apply_op x w"])
    fix j e
    assume "events (apply_op x w) j = Some e"
    with Cons.prems(1) show "0 \<le> retryCount e \<and> retryCount e \<le> 3 \<and> (status e = FAILED \<longrightarrow> retryCount e = 3)"
      by (rule apply_op_bounds)
  next
    from Cons.prems(2) show "events (run xs (apply_op x w)) i = Some e'" by simp
  qed
qed

lemma run_grows:
  assumes "events w i = Some e"
  shows "\<exists>e'. events (run ops w) i = Some e' \<and> retryCount e \<le> retryCount e'"
  using assms
proof (induction ops arbitrary: w e)
  case Nil
  then show ?case by simp
next
  case (Cons x xs)
  from apply_op_grows [OF Cons.prems, of x]
  obtain e1 where e1: "events (apply_op x w) i = Some e1" and le: "retryCount e \<le> retryCount e1"
    by blast
  from Cons.IH [OF e1] le show ?case by auto
qed




text \<open>
  Claim C3. Over every run that starts from an empty table (requests scheduled, jobs
  released to the worker in any number and order, the outside moving as it likes), every
  row has \<open>0 \<le> retryCount \<le> 3\<close>, a row whose status is FAILED has \<open>retryCount = 3\<close>, the
  \<open>retryCount\<close> of a row is never smaller later in the run than it is now, and a row that
  appears in a step starts with \<open>retryCount = 0\<close> (and status SCHEDULED).
\<close>
theorem retryCount_bounded_monotone:
  assumes "events w0 = Map.empty"
  shows "(events (run ops w0) i = Some e \<longrightarrow>
            0 \<le> retryCount e \<and> retryCount e \<le> MAX_RETRIES
            \<and> (status e = FAILED \<longrightarrow> retryCount e = MAX_RETRIES)
            \<and> (\<exists>e'. events (run later (run ops w0)) i = Some e' \<and> retryCount e \<le> retryCount e'))
       \<and> (events (run ops w0) i = None \<and> events (apply_op x (run ops w0)) i = Some e1 \<longrightarrow>
            retryCount e1 = 0 \<and> status e1 = SCHEDULED)"
proof -
  have first: "0 \<le> retryCount e \<and> retryCount e \<le> MAX_RETRIES
            \<and> (status e = FAILED \<longrightarrow> retryCount e = MAX_RETRIES)
            \<and> (\<exists>e'. events (run later (run ops w0)) i = Some e' \<and> retryCount e \<le> retryCount e')"
    if here: "events (run ops w0) i = Some e"
  proof -
    have "0 \<le> retryCount e \<and> retryCount e \<le> 3 \<and> (status e = FAILED \<longrightarrow> retryCount e = 3)"
    proof (rule run_bounds [of w0 ops i e])
      fix j a
      assume "events w0 j = Some a"
      with assms show "0 \<le> retryCount a \<and> retryCount a \<le> 3 \<and> (status a = FAILED \<longrightarrow> retryCount a = 3)"
        by simp
    next
      from here show "events (run ops w0) i = Some e" .
    qed
    with run_grows [OF here, of later] show ?thesis
      by (simp add: MAX_RETRIES_def)
  qed
  have second: "retryCount e1 = 0 \<and> status e1 = SCHEDULED"
    if "events (run ops w0) i = None \<and> events (apply_op x (run ops w0)) i = Some e1"
    using that apply_op_new [of "run ops w0" i x e1] by simp
  from first second show ?thesis by blast
qed

theorem retryCount_bounded_monotone_witness:
  "events (world_with [] [False, False, False, False]) = Map.empty
   \<and> events (run [Schedule request1, Release job1, Release job1, Release job1]
                (world_with [] [False, False, False, False])) ''e1''
       = Some (event1\<lparr>status := RETRIED, retryCount := 3\<rparr>)
   \<and> events (run [Release job1]
               (run [Schedule request1, Release job1, Release job1, Release job1]
                  (world_with [] [False, False, False, False]))) ''e1''
       = Some (event1\<lparr>status := FAILED, retryCount := 3\<rparr>)
   \<and> events (run [] (world_with [] [False, False, False, False])) ''e1'' = None
   \<and> events (apply_op (Schedule request1) (run [] (world_with [] [False, False, False, False]))) ''e1''
       = Some event1
   \<and> retryCount event1 = 0 \<and> (3::int) \<le> MAX_RETRIES"
proof -
  let ?w0 = "world_with [] [False, False, False, False]"
  let ?ops = "[Schedule request1, Release job1, Release job1, Release job1]"
  have h0: "events ?w0 = Map.empty"
    by (simp add: input_defs)
  have h1: "events (run ?ops ?w0) ''e1'' = Some (event1\<lparr>status := RETRIED, retryCount := 3\<rparr>)"
    by (simp add: model_defs input_defs)
  have h2: "events (run [Release job1] (run ?ops ?w0)) ''e1'' = Some (event1\<lparr>status := FAILED, retryCount := 3\<rparr>)"
    by (simp add: model_defs input_defs)
  have h3: "events (run [] ?w0) ''e1'' = None"
    by (simp add: input_defs)
  have h4: "events (apply_op (Schedule request1) (run [] ?w0)) ''e1'' = Some event1"
    by (simp add: model_defs input_defs)
  from retryCount_bounded_monotone [OF h0, of ?ops "''e1''" "event1\<lparr>status := RETRIED, retryCount := 3\<rparr>"
        "[Release job1]" "Schedule request1" event1] h1
  have "(3::int) \<le> MAX_RETRIES" by simp
  with h0 h1 h2 h3 h4 show ?thesis
    by (simp add: event1_def)
qed




section \<open>The worker's attempt\<close>

text \<open>
  Claim C1. The table of the claim asks for a re-arm after a failed send below the ceiling.
  The worker takes the table's status and \<open>retryCount\<close>, and does not re-arm: a request is
  scheduled, its job is released, and the send fails at \<open>retryCount\<close> 0. The row is then
  RETRIED with \<open>retryCount\<close> 1, and the queue has been given no job but the one of the
  scheduling.
\<close>
theorem failure_below_ceiling_not_rearmed:
  "events (run [Schedule request1, Release job1] (world_with [] [False])) ''e1''
      = Some (event1\<lparr>status := RETRIED, retryCount := 1\<rparr>)
   \<and> enqueued (trace (run [Schedule request1] (world_with [] [False]))) = [job1]
   \<and> enqueued (trace (run [Schedule request1, Release job1] (world_with [] [False]))) = [job1]"
  by (simp add: model_defs input_defs)

text \<open>
  Claim C2. After a failed send at \<open>retryCount\<close> 0 the worker marks the row RETRIED with
  \<open>retryCount\<close> 1, computes the delay 1000 ms, prints it in its warning, and fails the job:
  none of the attempt's effects adds a job to the queue. The delays it computes for
  \<open>retryCount\<close> 0, 1, 2 are 1000, 2000 and 4000 ms.
\<close>
theorem retry_delay_only_printed:
  "trace (snd (eventWorker job1 ((world_with [] [False])\<lparr>events := [''e1'' \<mapsto> event1]\<rparr>)))
      = [DbUpdate (event1\<lparr>status := PROCESSING\<rparr>),
         Broadcast (eventData_of (event1\<lparr>status := PROCESSING\<rparr>)),
         Send ''a@b.c'' ''hello'',
         DbGet ''e1'',
         RetryWarning ''e1'' 1 1000,
         DbUpdate (event1\<lparr>status := RETRIED, retryCount := 1\<rparr>),
         Broadcast (eventData_of (event1\<lparr>status := RETRIED, retryCount := 1\<rparr>))]
   \<and> enqueued (trace (snd (eventWorker job1 ((world_with [] [False])\<lparr>events := [''e1'' \<mapsto> event1]\<rparr>)))) = []
   \<and> fst (eventWorker job1 ((world_with [] [False])\<lparr>events := [''e1'' \<mapsto> event1]\<rparr>))
      = Inl (Error ''Simulated send failure, marking for potential retry by external system or monitoring.'')
   \<and> retryDelay_of 0 = 1000 \<and> retryDelay_of 1 = 2000 \<and> retryDelay_of 2 = 4000"
  by (simp add: model_defs input_defs power_int_def)

text \<open>
  Claim C7, as stated, fails: the first thing an attempt does is the update that marks
  the row PROCESSING. When the send succeeds the attempt never reads the row; when the send
  fails the read comes after the mark and after the send.
\<close>
theorem reread_before_processing_counterexample:
  "trace (run [Schedule request1, Release job1] (world_with [] [True]))
      = [DbCreate event1, QueueAdd job1, Broadcast (eventData_of event1),
         DbUpdate (event1\<lparr>status := PROCESSING\<rparr>),
         Broadcast (eventData_of (event1\<lparr>status := PROCESSING\<rparr>)),
         Send ''a@b.c'' ''hello'',
         DbUpdate (event1\<lparr>status := SENT\<rparr>),
         Broadcast (eventData_of (event1\<lparr>status := SENT\<rparr>))]
   \<and> trace (run [Schedule request1, Release job1] (world_with [] [False]))
      = [DbCreate event1, QueueAdd job1, Broadcast (eventData_of event1),
         DbUpdate (event1\<lparr>status := PROCESSING\<rparr>),
         Broadcast (eventData_of (event1\<lparr>status := PROCESSING\<rparr>)),
         Send ''a@b.c'' ''hello'',
         DbGet ''e1'',
         RetryWarning ''e1'' 1 1000,
         DbUpdate (event1\<lparr>status := RETRIED, retryCount := 1\<rparr>),
         Broadcast (eventData_of (event1\<lparr>status := RETRIED, retryCount := 1\<rparr>))]"
  by (simp add: model_defs input_defs power_int_def)

lemma eventWorker_same_data:
  "job_data job' = job_data job \<Longrightarrow> eventWorker job' w = eventWorker job w"
  by (simp add: eventWorker_def)

lemma answers2:
  "True \<notin> set (take 2 fs) \<Longrightarrow> fs = [] \<or> fs = [False] \<or> (\<exists>r. fs = False # False # r)"
  by (cases fs; cases "tl fs") auto

lemma answers3:
  "True \<notin> set (take 3 fs) \<Longrightarrow>
     fs = [] \<or> fs = [False] \<or> fs = [False, False] \<or> (\<exists>r. fs = False # False # False # r)"
  by (cases fs; cases "tl fs"; cases "tl (tl fs)") auto

lemma attempt_sent:
  assumes row: "events w (eventId (job_data job)) = Some old"
    and ok: "True \<notin> set (take 2 (faults w))"
    and send: "sends w = [] \<or> sends w = True # ss"
  shows "fst (eventWorker job w) = Inr ()
     \<and> events (snd (eventWorker job w))
          = (events w)(eventId (job_data job) \<mapsto> old\<lparr>status := SENT, updatedAt := dbNow w\<rparr>)
     \<and> trace (snd (eventWorker job w)) = trace w
          @ [DbUpdate (old\<lparr>status := PROCESSING, updatedAt := dbNow w\<rparr>),
             Broadcast (eventData_of (old\<lparr>status := PROCESSING, updatedAt := dbNow w\<rparr>)),
             Send (job_recipientEmail (job_data job)) (job_message (job_data job)),
             DbUpdate (old\<lparr>status := SENT, updatedAt := dbNow w\<rparr>),
             Broadcast (eventData_of (old\<lparr>status := SENT, updatedAt := dbNow w\<rparr>))]"
  using answers2 [OF ok] send row
  by (elim disjE exE) (simp_all add: infra_def emit_def broadcastEventUpdate_def updateEventStatus_def
      updateEvent_def simulateSendMessage_def eventWorker_def Let_def)

lemma attempt_retried:
  assumes row: "events w (eventId (job_data job)) = Some old"
    and ok: "True \<notin> set (take 3 (faults w))"
    and send: "sends w = False # ss"
    and below: "retryCount old < MAX_RETRIES"
  shows "fst (eventWorker job w)
          = Inl (Error ''Simulated send failure, marking for potential retry by external system or monitoring.'')
     \<and> events (snd (eventWorker job w))
          = (events w)(eventId (job_data job) \<mapsto>
               old\<lparr>status := RETRIED, retryCount := retryCount old + 1, updatedAt := dbNow w\<rparr>)
     \<and> trace (snd (eventWorker job w)) = trace w
          @ [DbUpdate (old\<lparr>status := PROCESSING, updatedAt := dbNow w\<rparr>),
             Broadcast (eventData_of (old\<lparr>status := PROCESSING, updatedAt := dbNow w\<rparr>)),
             Send (job_recipientEmail (job_data job)) (job_message (job_data job)),
             DbGet (eventId (job_data job)),
             RetryWarning (eventId (job_data job)) (retryCount old + 1) (retryDelay_of (retryCount old)),
             DbUpdate (old\<lparr>status := RETRIED, retryCount := retryCount old + 1, updatedAt := dbNow w\<rparr>),
             Broadcast (eventData_of (old\<lparr>status := RETRIED, retryCount := retryCount old + 1,
                                         updatedAt := dbNow w\<rparr>))]"
  using answers3 [OF ok] send row below
  by (elim disjE exE) (simp_all add: infra_def emit_def broadcastEventUpdate_def updateEventStatus_def
      updateEvent_def getEventDetails_def getEventById_def simulateSendMessage_def eventWorker_def
      MAX_RETRIES_def Let_def)

lemma attempt_failed:
  assumes row: "events w (eventId (job_data job)) = Some old"
    and ok: "True \<notin> set (take 3 (faults w))"
    and send: "sends w = False # ss"
    and ceiling: "\<not> retryCount old < MAX_RETRIES"
  shows "fst (eventWorker job w)
          = Inl (Error (''Event '' @ eventId (job_data job) @ '' failed after maximum retries.''))
     \<and> events (snd (eventWorker job w))
          = (events w)(eventId (job_data job) \<mapsto> old\<lparr>status := FAILED, updatedAt := dbNow w\<rparr>)
     \<and> trace (snd (eventWorker job w)) = trace w
          @ [DbUpdate (old\<lparr>status := PROCESSING, updatedAt := dbNow w\<rparr>),
             Broadcast (eventData_of (old\<lparr>status := PROCESSING, updatedAt := dbNow w\<rparr>)),
             Send (job_recipientEmail (job_data job)) (job_message (job_data job)),
             DbGet (eventId (job_data job)),
             DbUpdate (old\<lparr>status := FAILED, updatedAt := dbNow w\<rparr>),
             Broadcast (eventData_of (old\<lparr>status := FAILED, updatedAt := dbNow w\<rparr>))]"
  using answers3 [OF ok] send row ceiling
  by (elim disjE exE) (simp_all add: infra_def emit_def broadcastEventUpdate_def updateEventStatus_def
      updateEvent_def getEventDetails_def getEventById_def simulateSendMessage_def eventWorker_def
      MAX_RETRIES_def Let_def)

lemma attempt_nothing:
  assumes "events w (eventId (job_data job)) = None \<or> faults w = True # fs"
  shows "fst (eventWorker job w) = Inl (Error ''Failed to update event status.'')
     \<and> events (snd (eventWorker job w)) = events w
     \<and> trace (snd (eventWorker job w)) = trace w"
  using assms
  by (cases "faults w") (auto simp add: infra_def emit_def updateEventStatus_def updateEvent_def
      eventWorker_def Let_def)

text \<open>
  Claim C7, amended. Take a released job whose row is in the store, and let the store
  answer the attempt's calls. The attempt marks the row PROCESSING first, without reading
  it, and then sends. If the send succeeds, it marks the row SENT with the count unchanged,
  and the row is never read. If the send fails, it reads the row, after the mark and the
  send, and decides on the \<open>retryCount\<close> the store holds: below \<open>MAX_RETRIES\<close> the row
  becomes RETRIED with that count plus one, otherwise FAILED with the count unchanged. When
  the row is missing, or the first call to the store fails, the attempt fails having read,
  sent and changed nothing. Nothing of the job but its payload (the row's id, recipient and
  message) enters the attempt: jobs with the same payload, whatever their \<open>attemptsMade\<close>,
  give the same result.
\<close>

theorem processing_then_reread_on_failure:
  "(events w (eventId (job_data job)) = Some old \<and> True \<notin> set (take 2 (faults w))
      \<and> (sends w = [] \<or> sends w = True # ss) \<longrightarrow>
        fst (eventWorker job w) = Inr ()
        \<and> events (snd (eventWorker job w))
             = (events w)(eventId (job_data job) \<mapsto> old\<lparr>status := SENT, updatedAt := dbNow w\<rparr>)
        \<and> trace (snd (eventWorker job w)) = trace w
             @ [DbUpdate (old\<lparr>status := PROCESSING, updatedAt := dbNow w\<rparr>),
                Broadcast (eventData_of (old\<lparr>status := PROCESSING, updatedAt := dbNow w\<rparr>)),
                Send (job_recipientEmail (job_data job)) (job_message (job_data job)),
                DbUpdate (old\<lparr>status := SENT, updatedAt := dbNow w\<rparr>),
                Broadcast (eventData_of (old\<lparr>status := SENT, updatedAt := dbNow w\<rparr>))])
   \<and> (events w (eventId (job_data job)) = Some old \<and> True \<notin> set (take 3 (faults w))
      \<and> sends w = False # ss \<and> retryCount old < MAX_RETRIES \<longrightarrow>
        fst (eventWorker job w)
             = Inl (Error ''Simulated send failure, marking for potential retry by external system or monitoring.'')
        \<and> events (snd (eventWorker job w))
             = (events w)(eventId (job_data job) \<mapsto>
                  old\<lparr>status := RETRIED, retryCount := retryCount old + 1, updatedAt := dbNow w\<rparr>)
        \<and> trace (snd (eventWorker job w)) = trace w
             @ [DbUpdate (old\<lparr>status := PROCESSING, updatedAt := dbNow w\<rparr>),
                Broadcast (eventData_of (old\<lparr>status := PROCESSING, updatedAt := dbNow w\<rparr>)),
                Send (job_recipientEmail (job_data job)) (job_message (job_data job)),
                DbGet (eventId (job_data job)),
                RetryWarning (eventId (job_data job)) (retryCount old + 1) (retryDelay_of (retryCount old)),
                DbUpdate (old\<lparr>status := RETRIED, retryCount := retryCount old + 1, updatedAt := dbNow w\<rparr>),
                Broadcast (eventData_of (old\<lparr>status := RETRIED, retryCount := retryCount old + 1,
                                            updatedAt := dbNow w\<rparr>))])
   \<and> (events w (eventId (job_data job)) = Some old \<and> True \<notin> set (take 3 (faults w))
      \<and> sends w = False # ss \<and> \<not> retryCount old < MAX_RETRIES \<longrightarrow>
        fst (eventWorker job w)
             = Inl (Error (''Event '' @ eventId (job_data job) @ '' failed after maximum retries.''))
        \<and> events (snd (eventWorker job w))
             = (events w)(eventId (job_data job) \<mapsto> old\<lparr>status := FAILED, updatedAt := dbNow w\<rparr>)
        \<and> trace (snd (eventWorker job w)) = trace w
             @ [DbUpdate (old\<lparr>status := PROCESSING, updatedAt := dbNow w\<rparr>),
                Broadcast (eventData_of (old\<lparr>status := PROCESSING, updatedAt := dbNow w\<rparr>)),
                Send (job_recipientEmail (job_data job)) (job_message (job_data job)),
                DbGet (eventId (job_data job)),
                DbUpdate (old\<lparr>status := FAILED, updatedAt := dbNow w\<rparr>),
                Broadcast (eventData_of (old\<lparr>status := FAILED, updatedAt := dbNow w\<rparr>))])
   \<and> (events w (eventId (job_data job)) = None \<or> faults w = True # fs \<longrightarrow>
        fst (eventWorker job w) = Inl (Error ''Failed to update event status.'')
        \<and> events (snd (eventWorker job w)) = events w
        \<and> trace (snd (eventWorker job w)) = trace w)
   \<and> (job_data job' = job_data job \<longrightarrow> eventWorker job' w = eventWorker job w)"
proof -
  have a: "events w (eventId (job_data job)) = Some old \<and> True \<notin> set (take 2 (faults w))
      \<and> (sends w = [] \<or> sends w = True # ss) \<longrightarrow>
        fst (eventWorker job w) = Inr ()
        \<and> events (snd (eventWorker job w))
             = (events w)(eventId (job_data job) \<mapsto> old\<lparr>status := SENT, updatedAt := dbNow w\<rparr>)
        \<and> trace (snd (eventWorker job w)) = trace w
             @ [DbUpdate (old\<lparr>status := PROCESSING, updatedAt := dbNow w\<rparr>),
                Broadcast (eventData_of (old\<lparr>status := PROCESSING, updatedAt := dbNow w\<rparr>)),
                Send (job_recipientEmail (job_data job)) (job_message (job_data job)),
                DbUpdate (old\<lparr>status := SENT, updatedAt := dbNow w\<rparr>),
                Broadcast (eventData_of (old\<lparr>status := SENT, updatedAt := dbNow w\<rparr>))]"
    using attempt_sent [of w job old ss] by blast
  have b: "events w (eventId (job_data job)) = Some old \<and> True \<notin> set (take 3 (faults w))
      \<and> sends w = False # ss \<and> retryCount old < MAX_RETRIES \<longrightarrow>
        fst (eventWorker job w)
             = Inl (Error ''Simulated send failure, marking for potential retry by external system or monitoring.'')
        \<and> events (snd (eventWorker job w))
             = (events w)(eventId (job_data job) \<mapsto>
                  old\<lparr>status := RETRIED, retryCount := retryCount old + 1, updatedAt := dbNow w\<rparr>)
        \<and> trace (snd (eventWorker job w)) = trace w
             @ [DbUpdate (old\<lparr>status := PROCESSING, updatedAt := dbNow w\<rparr>),
                Broadcast (eventData_of (old\<lparr>status := PROCESSING, updatedAt := dbNow w\<rparr>)),
                Send (job_recipientEmail (job_data job)) (job_message (job_data job)),
                DbGet (eventId (job_data job)),
                RetryWarning (eventId (job_data job)) (retryCount old + 1) (retryDelay_of (retryCount old)),
                DbUpdate (old\<lparr>status := RETRIED, retryCount := retryCount old + 1, updatedAt := dbNow w\<rparr>),
                Broadcast (eventData_of (old\<lparr>status := RETRIED, retryCount := retryCount old + 1,
                                            updatedAt := dbNow w\<rparr>))]"
    using attempt_retried [of w job old ss] by blast
  have c: "events w (eventId (job_data job)) = Some old \<and> True \<notin> set (take 3 (faults w))
      \<and> sends w = False # ss \<and> \<not> retryCount old < MAX_RETRIES \<longrightarrow>
        fst (eventWorker job w)
             = Inl (Error (''Event '' @ eventId (job_data job) @ '' failed after maximum retries.''))
        \<and> events (snd (eventWorker job w))
             = (events w)(eventId (job_data job) \<mapsto> old\<lparr>status := FAILED, updatedAt := dbNow w\<rparr>)
        \<and> trace (snd (eventWorker job w)) = trace w
             @ [DbUpdate (old\<lparr>status := PROCESSING, updatedAt := dbNow w\<rparr>),
                Broadcast (eventData_of (old\<lparr>status := PROCESSING, updatedAt := dbNow w\<rparr>)),
                Send (job_recipientEmail (job_data job)) (job_message (job_data job)),
                DbGet (eventId (job_data job)),
                DbUpdate (old\<lparr>status := FAILED, updatedAt := dbNow w\<rparr>),
                Broadcast (eventData_of (old\<lparr>status := FAILED, updatedAt := dbNow w\<rparr>))]"
    using attempt_failed [of w job old ss] by blast
  have d: "events w (eventId (job_data job)) = None \<or> faults w = True # fs \<longrightarrow>
        fst (eventWorker job w) = Inl (Error ''Failed to update event status.'')
        \<and> events (snd (eventWorker job w)) = events w
        \<and> trace (snd (eventWorker job w)) = trace w"
    using attempt_nothing [of w job fs] by blast
  have e: "job_data job' = job_data job \<longrightarrow> eventWorker job' w = eventWorker job w"
    using eventWorker_same_data [of job' job w] by blast
  from a b c d e show ?thesis by blast
qed

theorem processing_then_reread_on_failure_witness:
  "events ((world_with [] [False])\<lparr>events := [''e1'' \<mapsto> event1\<lparr>retryCount := 2\<rparr>]\<rparr>) (eventId (job_data job1))
      = Some (event1\<lparr>retryCount := 2\<rparr>)
   \<and> True \<notin> set (take 3 (faults ((world_with [] [False])\<lparr>events := [''e1'' \<mapsto> event1\<lparr>retryCount := 2\<rparr>]\<rparr>)))
   \<and> sends ((world_with [] [False])\<lparr>events := [''e1'' \<mapsto> event1\<lparr>retryCount := 2\<rparr>]\<rparr>) = False # []
   \<and> retryCount (event1\<lparr>retryCount := 2\<rparr>) < MAX_RETRIES
   \<and> fst (eventWorker job1 ((world_with [] [False])\<lparr>events := [''e1'' \<mapsto> event1\<lparr>retryCount := 2\<rparr>]\<rparr>))
      = Inl (Error ''Simulated send failure, marking for potential retry by external system or monitoring.'')
   \<and> events (snd (eventWorker job1 ((world_with [] [False])\<lparr>events := [''e1'' \<mapsto> event1\<lparr>retryCount := 2\<rparr>]\<rparr>))) ''e1''
      = Some (event1\<lparr>status := RETRIED, retryCount := 3\<rparr>)
   \<and> eventWorker (job1\<lparr>attemptsMade := 7\<rparr>) ((world_with [] [False])\<lparr>events := [''e1'' \<mapsto> event1\<lparr>retryCount := 2\<rparr>]\<rparr>)
      = eventWorker job1 ((world_with [] [False])\<lparr>events := [''e1'' \<mapsto> event1\<lparr>retryCount := 2\<rparr>]\<rparr>)"
proof -
  let ?w = "(world_with [] [False])\<lparr>events := [''e1'' \<mapsto> event1\<lparr>retryCount := 2\<rparr>]\<rparr>"
  let ?old = "event1\<lparr>retryCount := 2\<rparr>"
  have h1: "events ?w (eventId (job_data job1)) = Some ?old"
    by (simp add: input_defs)
  have h2: "True \<notin> set (take 3 (faults ?w))"
    by (simp add: input_defs)
  have h3: "sends ?w = False # []"
    by (simp add: input_defs)
  have h4: "retryCount ?old < MAX_RETRIES"
    by (simp add: MAX_RETRIES_def)
  have h5: "job_data (job1\<lparr>attemptsMade := 7\<rparr>) = job_data job1"
    by simp
  note t = processing_then_reread_on_failure [of ?w job1 ?old "[]" "[]" "job1\<lparr>attemptsMade := 7\<rparr>"]
  from t h1 h2 h3 h4
  have r: "fst (eventWorker job1 ?w)
        = Inl (Error ''Simulated send failure, marking for potential retry by external system or monitoring.'')
      \<and> events (snd (eventWorker job1 ?w))
        = (events ?w)(eventId (job_data job1) \<mapsto>
             ?old\<lparr>status := RETRIED, retryCount := retryCount ?old + 1, updatedAt := dbNow ?w\<rparr>)"
    by blast
  from t h5 have s: "eventWorker (job1\<lparr>attemptsMade := 7\<rparr>) ?w = eventWorker job1 ?w"
    by blast
  from r have "events (snd (eventWorker job1 ?w)) ''e1'' = Some (event1\<lparr>status := RETRIED, retryCount := 3\<rparr>)"
    by (simp add: input_defs)
  with r s h1 h2 h3 h4 show ?thesis by simp
qed

text \<open>
  Claim C8, as stated, fails for the create of \<open>scheduleEvent\<close>: when the queue call fails
  after the create, the row is in the table and no broadcast has been published.
\<close>
theorem broadcast_after_every_mutation_counterexample:
  "events (snd (scheduleEvent request1 (world_with [False, True] []))) ''e1'' = Some event1
   \<and> trace (snd (scheduleEvent request1 (world_with [False, True] []))) = [DbCreate event1]
   \<and> published (trace (snd (scheduleEvent request1 (world_with [False, True] [])))) = []"
  by (simp add: model_defs input_defs)

text \<open>
  Claim C8, amended. Every update made through \<open>updateEventStatus\<close> is followed at once by
  exactly one broadcast, of the row as it is stored after the update, and a failed
  \<open>updateEventStatus\<close> changes and publishes nothing; so in the effects of a worker
  attempt every update is followed by the broadcast of the updated row and there is no
  other broadcast. The create of a \<open>scheduleEvent\<close> call that returns the row is followed
  by the enqueue and then by exactly one broadcast of the stored row; a \<open>scheduleEvent\<close>
  call that fails publishes nothing, also when its create has succeeded. The broadcast's
  fields are the row's, one by one.
\<close>
theorem broadcast_after_mutation:
  "(updateEventStatus i st rc w = (Inr e, w') \<longrightarrow>
      events w' i = Some e \<and> trace w' = trace w @ [DbUpdate e, Broadcast (eventData_of e)])
   \<and> (updateEventStatus i st rc w = (Inl err, w') \<longrightarrow> events w' = events w \<and> trace w' = trace w)
   \<and> (\<exists>es. trace (snd (eventWorker job w)) = trace w @ es \<and> updates_announced es)
   \<and> (scheduleEvent d w = (Inr ne, ws) \<longrightarrow>
        events ws (id_ev ne) = Some ne
        \<and> (\<exists>j. trace ws = trace w @ [DbCreate ne, QueueAdd j, Broadcast (eventData_of ne)]))
   \<and> (scheduleEvent d w = (Inl err, ws) \<longrightarrow>
        published (trace ws) = published (trace w)
        \<and> (trace ws = trace w \<or> (\<exists>ne. events ws (id_ev ne) = Some ne \<and> trace ws = trace w @ [DbCreate ne])))
   \<and> upd_id (eventData_of e) = id_ev e
   \<and> upd_message (eventData_of e) = message e
   \<and> upd_recipientEmail (eventData_of e) = recipientEmail e
   \<and> upd_sendAt (eventData_of e) = sendAt e
   \<and> upd_event_status (eventData_of e) = status e
   \<and> upd_event_retryCount (eventData_of e) = retryCount e
   \<and> upd_createdAt (eventData_of e) = createdAt e
   \<and> upd_updatedAt (eventData_of e) = updatedAt e"
proof -
  have a: "updateEventStatus i st rc w = (Inr e, w') \<longrightarrow>
      events w' i = Some e \<and> trace w' = trace w @ [DbUpdate e, Broadcast (eventData_of e)]"
    using updateEventStatus_Inr [of i st rc w e w'] by auto
  have b: "updateEventStatus i st rc w = (Inl err, w') \<longrightarrow> events w' = events w \<and> trace w' = trace w"
    using updateEventStatus_Inl [of i st rc w err w'] by auto
  have c: "\<exists>es. trace (snd (eventWorker job w)) = trace w @ es \<and> updates_announced es"
    using eventWorker_announced [of job w "fst (eventWorker job w)" "snd (eventWorker job w)"] by simp
  have d: "scheduleEvent d w = (Inr ne, ws) \<longrightarrow>
        events ws (id_ev ne) = Some ne
        \<and> (\<exists>j. trace ws = trace w @ [DbCreate ne, QueueAdd j, Broadcast (eventData_of ne)])"
    using scheduleEvent_cases [of d w "Inr ne" ws] by auto
  have e: "scheduleEvent d w = (Inl err, ws) \<longrightarrow>
        published (trace ws) = published (trace w)
        \<and> (trace ws = trace w \<or> (\<exists>ne. events ws (id_ev ne) = Some ne \<and> trace ws = trace w @ [DbCreate ne]))"
  proof
    assume s: "scheduleEvent d w = (Inl err, ws)"
    let ?ne = "\<lparr>id_ev = uuid w, message = data_message d, recipientEmail = data_recipientEmail d,
                 sendAt = data_sendAt d, status = SCHEDULED, retryCount = 0,
                 createdAt = dbNow w, updatedAt = dbNow w\<rparr>"
    from scheduleEvent_cases [OF s]
    have "trace ws = trace w
        \<or> (events ws = (events w)(uuid w \<mapsto> ?ne) \<and> trace ws = trace w @ [DbCreate ?ne])"
      by auto
    then show "published (trace ws) = published (trace w)
        \<and> (trace ws = trace w \<or> (\<exists>ne. events ws (id_ev ne) = Some ne \<and> trace ws = trace w @ [DbCreate ne]))"
    proof (elim disjE conjE)
      assume "trace ws = trace w"
      then show ?thesis by simp
    next
      assume ev: "events ws = (events w)(uuid w \<mapsto> ?ne)" and tr: "trace ws = trace w @ [DbCreate ?ne]"
      from ev have "events ws (id_ev ?ne) = Some ?ne" by simp
      with tr show ?thesis
        by (intro conjI disjI2 exI [of _ ?ne]) (simp_all add: published_append)
    qed
  qed
  from a b c d e show ?thesis
    by (simp add: eventData_of_def)
qed

theorem broadcast_after_mutation_witness:
  "updateEventStatus ''e1'' RETRIED (Some 1) ((world_with [] [])\<lparr>events := [''e1'' \<mapsto> event1]\<rparr>)
      = (Inr (event1\<lparr>status := RETRIED, retryCount := 1\<rparr>),
         snd (updateEventStatus ''e1'' RETRIED (Some 1) ((world_with [] [])\<lparr>events := [''e1'' \<mapsto> event1]\<rparr>)))
   \<and> events (snd (updateEventStatus ''e1'' RETRIED (Some 1) ((world_with [] [])\<lparr>events := [''e1'' \<mapsto> event1]\<rparr>))) ''e1''
      = Some (event1\<lparr>status := RETRIED, retryCount := 1\<rparr>)
   \<and> trace (snd (updateEventStatus ''e1'' RETRIED (Some 1) ((world_with [] [])\<lparr>events := [''e1'' \<mapsto> event1]\<rparr>)))
      = [DbUpdate (event1\<lparr>status := RETRIED, retryCount := 1\<rparr>),
         Broadcast (eventData_of (event1\<lparr>status := RETRIED, retryCount := 1\<rparr>))]
   \<and> upd_event_retryCount (eventData_of (event1\<lparr>status := RETRIED, retryCount := 1\<rparr>)) = 1"
proof -
  let ?w = "(world_with [] [])\<lparr>events := [''e1'' \<mapsto> event1]\<rparr>"
  let ?e = "event1\<lparr>status := RETRIED, retryCount := 1\<rparr>"
  have h: "updateEventStatus ''e1'' RETRIED (Some 1) ?w
      = (Inr ?e, snd (updateEventStatus ''e1'' RETRIED (Some 1) ?w))"
    by (simp add: model_defs input_defs)
  from broadcast_after_mutation
         [of "''e1''" RETRIED "Some 1" ?w ?e "snd (updateEventStatus ''e1'' RETRIED (Some 1) ?w)"] h
  have "events (snd (updateEventStatus ''e1'' RETRIED (Some 1) ?w)) ''e1'' = Some ?e
      \<and> trace (snd (updateEventStatus ''e1'' RETRIED (Some 1) ?w))
          = trace ?w @ [DbUpdate ?e, Broadcast (eventData_of ?e)]
      \<and> upd_event_retryCount (eventData_of ?e) = retryCount ?e"
    by blast
  with h show ?thesis by (simp add: input_defs)
qed

end
